theory Spec2Isabelle
  imports Main "HOL-Library.Word"
begin

unbundle bit_operations_syntax

section \<open>The connections tree model (src/modules/connections-tree/model.cpp)\<close>

text \<open>
  \<open>ConnectionsTree::Model\<close> is a \<open>QAbstractItemModel\<close> over tree items that are shared
  between the root list (strong handles), the items' own child lists (strong handles)
  and a registry of weak handles keyed by raw pointer. The embedding keeps an explicit
  store: a raw \<open>TreeItem*\<close> is an address, the store maps the addresses of the live items
  to their contents, and a weak handle is an address that resolves exactly when the
  store still holds it. A nullable handle is an \<open>option\<close>.
\<close>

subsection \<open>Values and tree items\<close>

datatype QVariant =
    QVariant_Invalid
  | QVariant_QString string
  | QVariant_QByteArray string
  | QVariant_Bool bool

text \<open>
  \<open>QVariant::toString\<close> (Qt), on the variants the model produces. A byte array is
  turned into a \<open>QString\<close> by Qt's UTF-8 decoding, which is not the identity: bytes that
  are no valid UTF-8 are replaced, so different byte arrays can give the same string.
  The decoding is the argument \<open>dec\<close>; nothing is assumed about it.
\<close>

fun toString :: "(string \<Rightarrow> string) \<Rightarrow> QVariant \<Rightarrow> string" where
  "toString dec QVariant_Invalid = []"
| "toString dec (QVariant_QString s) = s"
| "toString dec (QVariant_QByteArray s) = dec s"
| "toString dec (QVariant_Bool b) = (if b then ''true'' else ''false'')"

datatype ItemCall = FetchMore | HandleEvent string

text \<open>
  Modelled from the spec: \<open>items/treeitem.h\<close> and \<open>items/serveritem.h\<close> are not part of the
  sources. The record holds what the node-facing contract of the specification reads
  and writes: display name, icon, type tag, original name, enabled flag, the ordered
  children (strong handles), the parent back-reference (a weak handle), the stored row
  (\<open>row()\<close> / \<open>setRow\<close>), the load state, the string-keyed metadata, the item's weak
  handle to itself (\<open>setWeakPointer\<close>), and the calls of \<open>fetchMore\<close> and \<open>handleEvent\<close> it
  has received (what an item does with them is outside the model).
\<close>

record TreeItem =
  m_displayName :: string
  m_iconUrl :: string
  m_type :: string
  m_name :: string
  m_enabled :: bool
  m_childs :: "nat list"
  m_parent :: "nat option"
  m_row :: int
  m_canFetchMore :: bool
  m_metadata :: "string \<Rightarrow> QVariant"
  m_weakPointer :: "nat option"
  m_calls :: "ItemCall list"

text \<open>
  Modelled from the spec: \<open>childCount()\<close> and \<open>child(row)\<close> of the node contract, the
  number of children and the strong handle at a position of the ordered children, a
  null handle out of range. The count is taken as an \<open>int\<close>; the source passes
  \<open>childCount() - 1\<close> to an \<open>int\<close> parameter, which is \<open>-1\<close> for no children whether the
  count is signed or not.
\<close>

definition childCount :: "TreeItem \<Rightarrow> int" where
  "childCount it = int (length (m_childs it))"

definition child :: "TreeItem \<Rightarrow> int \<Rightarrow> nat option" where
  "child it r = (if 0 \<le> r \<and> r < childCount it then Some (m_childs it ! nat r) else None)"

subsection \<open>Model indexes, roles, flags and notifications\<close>

text \<open>
  \<open>QModelIndex\<close> (Qt): row, column, internal pointer and whether it carries a model.
  \<open>operator==\<close> compares all four, which is the equality of the record.
\<close>

record QModelIndex =
  ix_row :: int
  ix_column :: int
  ix_internalPointer :: "nat option"
  ix_model :: bool

definition QModelIndex_invalid :: QModelIndex where
  "QModelIndex_invalid =
     \<lparr>ix_row = - 1, ix_column = - 1, ix_internalPointer = None, ix_model = False\<rparr>"

definition isValid :: "QModelIndex \<Rightarrow> bool" where
  "isValid ix = (0 \<le> ix_row ix \<and> 0 \<le> ix_column ix \<and> ix_model ix)"

definition createIndex :: "int \<Rightarrow> int \<Rightarrow> nat option \<Rightarrow> QModelIndex" where
  "createIndex r c p =
     \<lparr>ix_row = r, ix_column = c, ix_internalPointer = p, ix_model = True\<rparr>"

text \<open>
  The roles \<open>data\<close> distinguishes: \<open>Qt::DecorationRole\<close> and the three of the model's own
  enumeration (declared in \<open>model.h\<close>); every other role number is \<open>OtherRole\<close>.
\<close>

datatype Role = itemName | DecorationRole | itemType | itemOriginalName | OtherRole int

text \<open>\<open>Qt::ItemFlags\<close>, a bit mask: \<open>ItemIsSelectable\<close> is bit 0, \<open>ItemIsEnabled\<close> bit 5.\<close>

type_synonym ItemFlags = "32 word"

definition NoItemFlags :: ItemFlags where "NoItemFlags = 0"
definition ItemIsSelectable :: ItemFlags where "ItemIsSelectable = 1"
definition ItemIsEnabled :: ItemFlags where "ItemIsEnabled = 32"

text \<open>\<open>QFlags::testFlag\<close> for a one-bit flag.\<close>

definition testFlag :: "ItemFlags \<Rightarrow> ItemFlags \<Rightarrow> bool" where
  "testFlag fl f = (fl AND f = f \<and> (f \<noteq> 0 \<or> fl = f))"

text \<open>What the model tells its consumer, in the order it is told.\<close>

datatype Notification =
    BeginInsertRows QModelIndex int int
  | EndInsertRows
  | BeginRemoveRows QModelIndex int int
  | EndRemoveRows
  | DataChanged QModelIndex QModelIndex
  | Expand QModelIndex

subsection \<open>The model state\<close>

text \<open>
  \<open>m_treeItems\<close> is the root list, \<open>m_rawPointers\<close> the registry of weak handles,
  \<open>m_expanded\<close> the set of expanded namespace names, kept as a duplicate-free list in
  the order \<open>foreach\<close> visits it (a \<open>QSet\<close> fixes no order). \<open>heap\<close> is the store of live
  items, \<open>settings\<close> the persisted application settings consulted through \<open>QSettings\<close>,
  \<open>emitted\<close> the notifications sent so far. \<open>fromUtf8\<close> is the UTF-8 decoding of the Qt
  library the model runs against (see \<open>toString\<close>): part of the surroundings like the
  store and the settings, never written by the model.
\<close>

record Model =
  m_treeItems :: "nat list"
  m_rawPointers :: "nat \<rightharpoonup> nat"
  m_expanded :: "string list"
  heap :: "nat \<rightharpoonup> TreeItem"
  settings :: "string \<rightharpoonup> bool"
  emitted :: "Notification list"
  fromUtf8 :: "string \<Rightarrow> string"

definition emit :: "Model \<Rightarrow> Notification \<Rightarrow> Model" where
  "emit st n = st\<lparr>emitted := emitted st @ [n]\<rparr>"

text \<open>\<open>QWeakPointer::toStrongRef\<close>: the item, while it is alive.\<close>

definition toStrongRef :: "Model \<Rightarrow> nat \<Rightarrow> (nat \<times> TreeItem) option" where
  "toStrongRef st w = (case heap st w of None \<Rightarrow> None | Some it \<Rightarrow> Some (w, it))"

text \<open>A nullable weak handle, as the signal handlers receive it.\<close>

definition lock :: "Model \<Rightarrow> nat option \<Rightarrow> (nat \<times> TreeItem) option" where
  "lock st item = (case item of None \<Rightarrow> None | Some w \<Rightarrow> toStrongRef st w)"

text \<open>
  Modelled from the spec: \<open>Model::getItemFromIndex\<close> is declared in \<open>model.h\<close>, which is not
  part of the sources. Following the registry contract of the specification
  (\<open>resolve(identity) -> handle-or-absent\<close>): an invalid index resolves to nothing; a valid
  one is looked up by its internal pointer in \<open>m_rawPointers\<close>, and the weak handle found
  there resolves only while its item is alive. An index that was freed, is stale or was
  never registered resolves to nothing. The specification lets the registry drop the
  entries of items that are gone; a dropped entry and a dead one resolve alike, so the
  lookup here leaves the registry as it is.
\<close>

definition getItemFromIndex :: "Model \<Rightarrow> QModelIndex \<Rightarrow> (nat \<times> TreeItem) option" where
  "getItemFromIndex st ix =
     (if \<not> isValid ix then None
      else case ix_internalPointer ix of
             None \<Rightarrow> None
           | Some a \<Rightarrow> (case m_rawPointers st a of
                          None \<Rightarrow> None
                        | Some w \<Rightarrow> toStrongRef st w))"

text \<open>Modelled from the spec: \<open>columnCount\<close> (in \<open>model.h\<close>) is fixed at 1.\<close>

definition columnCount :: "Model \<Rightarrow> QModelIndex \<Rightarrow> int" where
  "columnCount st parent = 1"

subsection \<open>Queries\<close>

definition data :: "Model \<Rightarrow> QModelIndex \<Rightarrow> Role \<Rightarrow> QVariant" where
  "data st ix role =
     (case getItemFromIndex st ix of
        None \<Rightarrow> QVariant_Invalid
      | Some (a, item) \<Rightarrow>
          (case role of
             itemName \<Rightarrow> QVariant_QString (m_displayName item)
           | DecorationRole \<Rightarrow> QVariant_QString (m_iconUrl item)
           | itemType \<Rightarrow> QVariant_QString (m_type item)
           | itemOriginalName \<Rightarrow> QVariant_QByteArray (m_name item)
           | OtherRole k \<Rightarrow> QVariant_Invalid))"

definition flags :: "Model \<Rightarrow> QModelIndex \<Rightarrow> ItemFlags" where
  "flags st ix =
     (case getItemFromIndex st ix of
        None \<Rightarrow> NoItemFlags
      | Some (a, item) \<Rightarrow>
          (let result = ItemIsSelectable
           in if m_enabled item then result OR ItemIsEnabled else result))"

definition rowCount :: "Model \<Rightarrow> QModelIndex \<Rightarrow> int" where
  "rowCount st parent =
     (case getItemFromIndex st parent of
        None \<Rightarrow> int (length (m_treeItems st))
      | Some (a, parentItem) \<Rightarrow>
          if ix_column parent > 0 then 0 else childCount parentItem)"

text \<open>\<open>QAbstractItemModel::hasIndex\<close> and \<open>hasChildren\<close> (Qt), over this model's counts.\<close>

definition hasIndex :: "Model \<Rightarrow> int \<Rightarrow> int \<Rightarrow> QModelIndex \<Rightarrow> bool" where
  "hasIndex st r c parent =
     (if r < 0 \<or> c < 0 then False
      else r < rowCount st parent \<and> c < columnCount st parent)"

definition hasChildren :: "Model \<Rightarrow> QModelIndex \<Rightarrow> bool" where
  "hasChildren st parent = (rowCount st parent > 0 \<and> columnCount st parent > 0)"

text \<open>
  \<open>index\<close> and \<open>parent\<close> are \<open>const\<close> but write the registry through its pointer: they
  return the state with the index. \<open>rawPointers_insert st a w\<close> is
  \<open>m_rawPointers->insert(a, w)\<close>, the weak handle \<open>w\<close> stored under the raw pointer \<open>a\<close>.
\<close>

definition rawPointers_insert :: "Model \<Rightarrow> nat \<Rightarrow> nat \<Rightarrow> Model" where
  "rawPointers_insert st a w = st\<lparr>m_rawPointers := (m_rawPointers st)(a \<mapsto> w)\<rparr>"

definition index :: "Model \<Rightarrow> int \<Rightarrow> int \<Rightarrow> QModelIndex \<Rightarrow> Model \<times> QModelIndex" where
  "index st r c parent =
     (if \<not> hasIndex st r c parent then (st, QModelIndex_invalid)
      else
        let childItem =
             (case getItemFromIndex st parent of
                Some (a, parentItem) \<Rightarrow> child parentItem r
              | None \<Rightarrow>
                  if r < int (length (m_treeItems st))
                  then Some (m_treeItems st ! nat r) else None)
        in case childItem of
             None \<Rightarrow> (st, QModelIndex_invalid)
           | Some cp \<Rightarrow>
               (rawPointers_insert st cp cp, createIndex r c (Some cp)))"

definition parent :: "Model \<Rightarrow> QModelIndex \<Rightarrow> Model \<times> QModelIndex" where
  "parent st ix =
     (case getItemFromIndex st ix of
        None \<Rightarrow> (st, QModelIndex_invalid)
      | Some (a, childItem) \<Rightarrow>
          (case lock st (m_parent childItem) of
             None \<Rightarrow> (st, QModelIndex_invalid)
           | Some (pp, parentItem) \<Rightarrow>
               (rawPointers_insert st pp pp,
                createIndex (m_row parentItem) 0 (Some pp))))"

definition getIndexFromItem :: "Model \<Rightarrow> nat option \<Rightarrow> QModelIndex" where
  "getIndexFromItem st item =
     (case lock st item of
        Some (a, it) \<Rightarrow> createIndex (m_row it) 0 (Some a)
      | None \<Rightarrow> QModelIndex_invalid)"

definition canFetchMore :: "Model \<Rightarrow> QModelIndex \<Rightarrow> bool" where
  "canFetchMore st parentIx =
     (case getItemFromIndex st parentIx of
        None \<Rightarrow> False
      | Some (a, i) \<Rightarrow> m_canFetchMore i)"

definition getItemIcon :: "Model \<Rightarrow> QModelIndex \<Rightarrow> QVariant" where
  "getItemIcon st ix = data st ix DecorationRole"

definition getItemType :: "Model \<Rightarrow> QModelIndex \<Rightarrow> QVariant" where
  "getItemType st ix = data st ix itemType"

definition getMetadata :: "Model \<Rightarrow> QModelIndex \<Rightarrow> string \<Rightarrow> QVariant" where
  "getMetadata st ix metaKey =
     (case getItemFromIndex st ix of
        None \<Rightarrow> QVariant_Invalid
      | Some (a, item) \<Rightarrow> m_metadata item metaKey)"

definition size_model :: "Model \<Rightarrow> nat" where
  "size_model st = length (m_treeItems st)"

subsection \<open>Operations on the resolved item\<close>

text \<open>Writing through a pointer to a live item.\<close>

definition update_item :: "Model \<Rightarrow> nat \<Rightarrow> (TreeItem \<Rightarrow> TreeItem) \<Rightarrow> Model" where
  "update_item st a f =
     (case heap st a of
        None \<Rightarrow> st
      | Some it \<Rightarrow> st\<lparr>heap := (heap st)(a \<mapsto> f it)\<rparr>)"

definition fetchMore :: "Model \<Rightarrow> QModelIndex \<Rightarrow> Model" where
  "fetchMore st parentIx =
     (case getItemFromIndex st parentIx of
        None \<Rightarrow> st
      | Some (a, i) \<Rightarrow> update_item st a (\<lambda>it. it\<lparr>m_calls := m_calls it @ [FetchMore]\<rparr>))"

definition setMetadata :: "Model \<Rightarrow> QModelIndex \<Rightarrow> string \<Rightarrow> QVariant \<Rightarrow> Model" where
  "setMetadata st ix metaKey v =
     (case getItemFromIndex st ix of
        None \<Rightarrow> st
      | Some (a, item) \<Rightarrow>
          update_item st a (\<lambda>it. it\<lparr>m_metadata := (m_metadata it)(metaKey := v)\<rparr>))"

definition sendEvent :: "Model \<Rightarrow> QModelIndex \<Rightarrow> string \<Rightarrow> Model" where
  "sendEvent st ix event =
     (case getItemFromIndex st ix of
        None \<Rightarrow> st
      | Some (a, item) \<Rightarrow>
          update_item st a (\<lambda>it. it\<lparr>m_calls := m_calls it @ [HandleEvent event]\<rparr>))"

definition setExpanded :: "Model \<Rightarrow> QModelIndex \<Rightarrow> Model" where
  "setExpanded st ix =
     (case getItemFromIndex st ix of
        None \<Rightarrow> st
      | Some (a, item) \<Rightarrow>
          if m_type item \<noteq> ''namespace'' then st
          else st\<lparr>m_expanded := List.insert (m_name item) (m_expanded st)\<rparr>)"

definition setCollapsed :: "Model \<Rightarrow> QModelIndex \<Rightarrow> Model" where
  "setCollapsed st ix =
     (case getItemFromIndex st ix of
        None \<Rightarrow> st
      | Some (a, item) \<Rightarrow>
          if m_type item \<noteq> ''namespace'' then st
          else st\<lparr>m_expanded := removeAll (m_name item) (m_expanded st)\<rparr>)"

subsection \<open>The root list\<close>

text \<open>
  The argument is a \<open>QSharedPointer\<close>: null, or the address of an item it keeps alive.
\<close>

definition addRootItem :: "Model \<Rightarrow> nat option \<Rightarrow> Model" where
  "addRootItem st serverItem =
     (case serverItem of
        None \<Rightarrow> st
      | Some a \<Rightarrow>
          let insertIndex = int (length (m_treeItems st));
              st1 = emit st (BeginInsertRows QModelIndex_invalid insertIndex insertIndex);
              st2 = update_item st1 a (\<lambda>it. it\<lparr>m_row := insertIndex\<rparr>);
              st3 = update_item st2 a (\<lambda>it. it\<lparr>m_weakPointer := Some a\<rparr>);
              st4 = st3\<lparr>m_treeItems := m_treeItems st3 @ [a]\<rparr>
          in emit st4 EndInsertRows)"

text \<open>
  \<open>item->row()\<close> is read from the live item; a strong handle always has one, so the
  other branch of the store lookup is never taken.
\<close>

definition removeRootItem :: "Model \<Rightarrow> nat option \<Rightarrow> Model" where
  "removeRootItem st item =
     (case item of
        None \<Rightarrow> st
      | Some a \<Rightarrow>
          (case heap st a of
             None \<Rightarrow> st
           | Some it \<Rightarrow>
               let st1 = emit st (BeginRemoveRows QModelIndex_invalid (m_row it) (m_row it));
                   st2 = st1\<lparr>m_treeItems := removeAll a (m_treeItems st1)\<rparr>
               in emit st2 EndRemoveRows))"

subsection \<open>Signals from the items\<close>

definition onItemChanged :: "Model \<Rightarrow> nat option \<Rightarrow> Model" where
  "onItemChanged st item =
     (case lock st item of
        None \<Rightarrow> st
      | Some (a, it) \<Rightarrow>
          let ix = getIndexFromItem st item
          in if \<not> isValid ix \<or> childCount it = 0 then st
             else emit st (DataChanged ix ix))"

definition onItemChildsUnloaded :: "Model \<Rightarrow> nat option \<Rightarrow> Model" where
  "onItemChildsUnloaded st item =
     (case lock st item of
        None \<Rightarrow> st
      | Some (a, it) \<Rightarrow>
          let ix = getIndexFromItem st item
          in if \<not> isValid ix then st
             else emit (emit st (BeginRemoveRows ix 0 (childCount it - 1))) EndRemoveRows)"

subsection \<open>Searching the tree\<close>

text \<open>
  \<open>QAbstractItemModel::match\<close> (Qt) the way \<open>restoreOpenedNamespaces\<close> calls it: all hits
  (\<open>hits = -1\<close>), flags \<open>MatchFixedString | MatchCaseSensitive | MatchRecursive\<close>, no
  wrap-around. \<open>match_rows\<close> is its loop over the rows \<open>r < to\<close> of the parent \<open>p\<close>; the
  recursive search of a row's children is the argument \<open>rec\<close>. The recursion of \<open>match\<close>
  follows the items' child lists, which the store does not force to be a tree, so it
  carries fuel: \<open>None\<close> is a search that did not finish.
\<close>

function match_rows ::
  "(Model \<Rightarrow> QModelIndex \<Rightarrow> (Model \<times> QModelIndex list) option) \<Rightarrow>
   Model \<Rightarrow> QModelIndex \<Rightarrow> int \<Rightarrow> Role \<Rightarrow> QVariant \<Rightarrow> int \<Rightarrow> int \<Rightarrow>
   QModelIndex list \<Rightarrow> (Model \<times> QModelIndex list) option" where
  "match_rows rec st p column role v r to result =
     (if r < to then
        (case index st r column p of (st1, idx) \<Rightarrow>
           if \<not> isValid idx then match_rows rec st1 p column role v (r + 1) to result
           else
             let result1 =
                  (if toString (fromUtf8 st1) (data st1 idx role) = toString (fromUtf8 st1) v
                   then result @ [idx] else result)
             in if hasChildren st1 idx then
                  (case index st1 0 column idx of (st2, start) \<Rightarrow>
                     (case rec st2 start of
                        None \<Rightarrow> None
                      | Some (st3, sub) \<Rightarrow>
                          match_rows rec st3 p column role v (r + 1) to (result1 @ sub)))
                else match_rows rec st1 p column role v (r + 1) to result1)
      else Some (st, result))"
  by pat_completeness auto
termination
  by (relation "measure (\<lambda>(rec, st, p, column, role, v, r, to, result). nat (to - r))") auto

primrec match ::
  "nat \<Rightarrow> Model \<Rightarrow> QModelIndex \<Rightarrow> Role \<Rightarrow> QVariant \<Rightarrow> (Model \<times> QModelIndex list) option" where
  "match 0 st start role v = None"
| "match (Suc n) st start role v =
     (let column = ix_column start
      in case parent st start of (st1, p) \<Rightarrow>
           let from = ix_row start;
               to = rowCount st1 p;
               text = toString (fromUtf8 st) v;
               v' = (if text = [] then v else QVariant_QString text)
           in match_rows (\<lambda>s i. match n s i role v') st1 p column role v from to [])"

subsection \<open>Restoring the expanded namespaces\<close>

text \<open>The \<open>foreach\<close> over the snapshot: one search per name, one \<open>expand\<close> per match.\<close>

fun restoreOpenedNamespaces_foreach ::
  "nat \<Rightarrow> Model \<Rightarrow> QModelIndex \<Rightarrow> string list \<Rightarrow> Model option" where
  "restoreOpenedNamespaces_foreach fuel st searchFrom [] = Some st"
| "restoreOpenedNamespaces_foreach fuel st searchFrom (item # rest) =
     (case match fuel st searchFrom itemOriginalName (QVariant_QByteArray item) of
        None \<Rightarrow> None
      | Some (st1, matches) \<Rightarrow>
          restoreOpenedNamespaces_foreach fuel
            (foldl emit st1 (map Expand matches)) searchFrom rest)"

definition restoreOpenedNamespaces :: "nat \<Rightarrow> Model \<Rightarrow> QModelIndex \<Rightarrow> Model option" where
  "restoreOpenedNamespaces fuel st dbIndex =
     (let expandedCache = m_expanded st;
          st1 = st\<lparr>m_expanded := []\<rparr>
      in case index st1 0 0 dbIndex of (st2, searchFrom) \<Rightarrow>
           restoreOpenedNamespaces_foreach fuel st2 searchFrom expandedCache)"

text \<open>\<open>QSettings::value(key, defaultValue).toBool()\<close>.\<close>

definition settings_value :: "Model \<Rightarrow> string \<Rightarrow> bool \<Rightarrow> bool" where
  "settings_value st key dflt = (case settings st key of None \<Rightarrow> dflt | Some b \<Rightarrow> b)"

definition onItemChildsLoaded :: "nat \<Rightarrow> Model \<Rightarrow> nat option \<Rightarrow> Model option" where
  "onItemChildsLoaded fuel st item =
     (case lock st item of
        None \<Rightarrow> Some st
      | Some (a, treeItem) \<Rightarrow>
          let ix = getIndexFromItem st item
          in if \<not> isValid ix then Some st
             else
               let st1 = emit st (BeginInsertRows ix 0 (childCount treeItem - 1));
                   st2 = emit st1 EndInsertRows
               in if m_type treeItem = ''database'' then
                    (let st3 = emit st2 (Expand ix)
                     in if settings_value st3 ''app/reopenNamespacesOnReload'' True
                        then restoreOpenedNamespaces fuel st3 ix
                        else Some (st3\<lparr>m_expanded := []\<rparr>))
                  else Some st2)"

subsection \<open>A fresh model and sample items\<close>

text \<open>
  \<open>Model::Model\<close> starts with an empty root list, an empty registry and nothing
  expanded; the store and the settings are the model's surroundings. So is the
  decoding: the sample names are ASCII without a zero byte, which UTF-8 decoding leaves
  as they are, and the sample models decode with \<open>sampleFromUtf8\<close>. The theorems about
  searches hold for every decoding.
\<close>

definition sampleFromUtf8 :: "string \<Rightarrow> string" where
  "sampleFromUtf8 bytes = bytes"

definition newModel :: "(nat \<rightharpoonup> TreeItem) \<Rightarrow> (string \<rightharpoonup> bool) \<Rightarrow> Model" where
  "newModel h s =
     \<lparr>m_treeItems = [], m_rawPointers = Map.empty, m_expanded = [],
      heap = h, settings = s, emitted = [], fromUtf8 = sampleFromUtf8\<rparr>"

definition mkItem :: "string \<Rightarrow> string \<Rightarrow> nat list \<Rightarrow> nat option \<Rightarrow> int \<Rightarrow> TreeItem" where
  "mkItem name type childs par r =
     \<lparr>m_displayName = name, m_iconUrl = [], m_type = type, m_name = name,
      m_enabled = True, m_childs = childs, m_parent = par, m_row = r,
      m_canFetchMore = False, m_metadata = (\<lambda>k. QVariant_Invalid),
      m_weakPointer = None, m_calls = []\<rparr>"

subsection \<open>Well-formed states\<close>




subsection \<open>The ownership tree below an item\<close>

text \<open>
  The items reachable from one item through the child lists, as a finite tree of
  addresses and original names. \<open>represents h par t\<close> says that the store \<open>h\<close> holds this
  tree: every node is alive, has the name and the children the tree gives it, has its
  parent back-reference at its owner (\<open>par\<close> at the top), and a stored row that is not
  negative.
\<close>

datatype ItemTree = ItemTree (address: nat) (name: string) (subtrees: "ItemTree list")



text \<open>
  What the specification asks of the restoration: a recursive search for the items
  whose original name matches the given one. \<open>descendants r ts\<close> lists every item of the
  forest \<open>ts\<close> (whose first tree sits at row \<open>r\<close>) with the index of its position under
  its owner, parents before children; \<open>matching dec text r ts\<close> keeps the indexes of those
  whose name, decoded by \<open>dec\<close>, is the string \<open>text\<close>, character by character.
\<close>

fun descendants_of :: "int \<Rightarrow> ItemTree \<Rightarrow> (QModelIndex \<times> string) list"
  and descendants :: "int \<Rightarrow> ItemTree list \<Rightarrow> (QModelIndex \<times> string) list" where
  "descendants_of r (ItemTree a nm ts) = (createIndex r 0 (Some a), nm) # descendants 0 ts"
| "descendants r [] = []"
| "descendants r (t # ts) = descendants_of r t @ descendants (r + 1) ts"

definition matching ::
  "(string \<Rightarrow> string) \<Rightarrow> string \<Rightarrow> int \<Rightarrow> ItemTree list \<Rightarrow> QModelIndex list" where
  "matching dec text r ts = map fst (filter (\<lambda>(ix, n). dec n = text) (descendants r ts))"

subsection \<open>Sample states\<close>

text \<open>
  Two servers, one of them with a loaded database: \<open>srv\<close> (10) owns \<open>db0\<close> (30), which
  owns the namespace \<open>users\<close> (40) and the key \<open>Users\<close> (50); the namespace owns another
  namespace \<open>users\<close> (60). \<open>other\<close> (20) is a second server.
\<close>

definition sampleHeap :: "nat \<rightharpoonup> TreeItem" where
  "sampleHeap =
     [10 \<mapsto> mkItem ''srv'' ''server'' [30] None (- 1),
      20 \<mapsto> mkItem ''other'' ''server'' [] None (- 1),
      30 \<mapsto> mkItem ''db0'' ''database'' [40, 50] (Some 10) 0,
      40 \<mapsto> mkItem ''users'' ''namespace'' [60] (Some 30) 0,
      50 \<mapsto> mkItem ''Users'' ''key'' [] (Some 30) 1,
      60 \<mapsto> mkItem ''users'' ''namespace'' [] (Some 40) 0]"

definition sampleModel :: Model where
  "sampleModel =
     addRootItem (addRootItem (newModel sampleHeap Map.empty) (Some 10)) (Some 20)"

text \<open>A model whose only root item is disabled, after the consumer asked for its index.\<close>

definition disabledItem :: TreeItem where
  "disabledItem = (mkItem ''off'' ''server'' [] None 0)\<lparr>m_enabled := False\<rparr>"

definition disabledModel :: Model where
  "disabledModel = fst (index (addRootItem (newModel [70 \<mapsto> disabledItem] Map.empty) (Some 70)) 0 0 QModelIndex_invalid)"

text \<open>
  The same model with namespace \<open>users\<close> tracked as expanded and the restoration
  switched off in the settings.
\<close>

definition noRestoreModel :: Model where
  "noRestoreModel =
     sampleModel\<lparr>m_expanded := [''users''],
                 settings := [''app/reopenNamespacesOnReload'' \<mapsto> False]\<rparr>"

text \<open>
  The same model after the consumer walked to the database (which registers \<open>srv\<close> and
  \<open>db0\<close>), with namespace \<open>users\<close> tracked as expanded.
\<close>

definition browsedModel :: Model where
  "browsedModel =
     (fst (index (fst (index sampleModel 0 0 QModelIndex_invalid)) 0 0
            (createIndex 0 0 (Some 10))))\<lparr>m_expanded := [''users'']\<rparr>"




text \<open>
  \<open>other\<close> and \<open>srv\<close> are added in this order, then \<open>other\<close> is removed.
\<close>

definition removedModel :: Model where
  "removedModel =
     removeRootItem
       (addRootItem (addRootItem (newModel sampleHeap Map.empty) (Some 20)) (Some 10)) (Some 20)"

section \<open>Properties\<close>

lemmas eval_defs = sampleModel_def sampleHeap_def newModel_def mkItem_def addRootItem_def
  removeRootItem_def update_item_def emit_def Let_def lock_def toStrongRef_def
  getItemFromIndex_def getIndexFromItem_def isValid_def createIndex_def QModelIndex_invalid_def
  childCount_def child_def rowCount_def columnCount_def hasIndex_def hasChildren_def
  index_def parent_def rawPointers_insert_def


subsection \<open>The root list\<close>

text \<open>
  C10. \<open>addRootItem\<close> with a null handle leaves the model as it is: same root list, same
  size, nothing emitted. A handle to a live item is appended at the row that equals the
  previous size, that row is assigned to the item, and the insertion is bracketed by
  one begin-insert over exactly that row and one end-insert.
\<close>

theorem addRootItem_null_is_noop:
  "addRootItem st None = st \<and>
   (\<forall>a it. heap st a = Some it \<longrightarrow>
      m_treeItems (addRootItem st (Some a)) = m_treeItems st @ [a] \<and>
      size_model (addRootItem st (Some a)) = size_model st + 1 \<and>
      map_option m_row (heap (addRootItem st (Some a)) a) = Some (int (size_model st)) \<and>
      emitted (addRootItem st (Some a)) =
        emitted st @
          [BeginInsertRows QModelIndex_invalid (int (size_model st)) (int (size_model st)),
           EndInsertRows])"
  by (simp add: addRootItem_def update_item_def emit_def size_model_def Let_def)

theorem addRootItem_null_is_noop_witness:
  "addRootItem sampleModel None = sampleModel \<and>
   m_treeItems (addRootItem (newModel sampleHeap Map.empty) (Some 10)) = [10] \<and>
   map_option m_row (heap (addRootItem (newModel sampleHeap Map.empty) (Some 10)) 10) = Some 0"
  using addRootItem_null_is_noop [of "sampleModel"]
    addRootItem_null_is_noop [of "newModel sampleHeap Map.empty"]
  by (simp add: newModel_def sampleHeap_def size_model_def)

text \<open>
  C1. The root list \<open>[srv, other]\<close> is built by two calls of \<open>addRootItem\<close>, then
  \<open>removeRootItem(srv)\<close> runs. The size drops to 1 and \<open>other\<close> is now at position 0, but
  its stored row is still 1: \<open>removeRootItem\<close> does not renumber the rows after the one
  it removes, so the row of a root item no longer equals its position.
\<close>

theorem removeRootItem_keeps_later_rows:
  "m_treeItems (removeRootItem sampleModel (Some 10)) = [20] \<and>
   size_model (removeRootItem sampleModel (Some 10)) = 1 \<and>
   map_option m_row (heap sampleModel 20) = Some 1 \<and>
   map_option m_row (heap (removeRootItem sampleModel (Some 10)) 20) = Some 1"
  by (simp add: sampleModel_def sampleHeap_def newModel_def mkItem_def addRootItem_def
      removeRootItem_def update_item_def emit_def size_model_def Let_def)

text \<open>
  C9. In the model with root list \<open>[srv, other]\<close>, \<open>removeRootItem\<close> is called with the
  live item \<open>db0\<close>, which is not in the root list (its stored row is 0). The root list
  and the store are unchanged, but a begin-remove / end-remove bracket over row 0 is
  still sent to the consumer.
\<close>

theorem removeRootItem_absent_still_notifies:
  "m_treeItems (removeRootItem sampleModel (Some 30)) = m_treeItems sampleModel \<and>
   heap (removeRootItem sampleModel (Some 30)) = heap sampleModel \<and>
   emitted (removeRootItem sampleModel (Some 30)) =
     emitted sampleModel @ [BeginRemoveRows QModelIndex_invalid 0 0, EndRemoveRows]"
  by (simp add: sampleModel_def sampleHeap_def newModel_def mkItem_def addRootItem_def
      removeRootItem_def update_item_def emit_def Let_def)

text \<open>
  The same happens when \<open>removeRootItem(srv)\<close> is called a second time: \<open>srv\<close> is no
  longer in the root list, nothing is removed, and a second remove bracket over its
  row 0 is sent.
\<close>

lemma removeRootItem_twice:
  "m_treeItems (removeRootItem (removeRootItem sampleModel (Some 10)) (Some 10)) =
     m_treeItems (removeRootItem sampleModel (Some 10)) \<and>
   emitted (removeRootItem (removeRootItem sampleModel (Some 10)) (Some 10)) =
     emitted (removeRootItem sampleModel (Some 10)) @
       [BeginRemoveRows QModelIndex_invalid 0 0, EndRemoveRows]"
  by (simp add: sampleModel_def sampleHeap_def newModel_def mkItem_def addRootItem_def
      removeRootItem_def update_item_def emit_def Let_def)

subsection \<open>Indexes that resolve to no item\<close>

text \<open>
  C6. For an index that \<open>getItemFromIndex\<close> cannot resolve, \<open>data\<close> and \<open>getMetadata\<close>
  return the empty variant, \<open>canFetchMore\<close> is false, and \<open>fetchMore\<close>, \<open>setMetadata\<close> and
  \<open>sendEvent\<close> return the state they were given.
\<close>

theorem unresolved_index_is_no_node:
  "getItemFromIndex st ix = None \<Longrightarrow>
     data st ix role = QVariant_Invalid \<and>
     getMetadata st ix metaKey = QVariant_Invalid \<and>
     \<not> canFetchMore st ix \<and>
     fetchMore st ix = st \<and>
     setMetadata st ix metaKey v = st \<and>
     sendEvent st ix event = st"
  by (simp add: data_def getMetadata_def canFetchMore_def fetchMore_def setMetadata_def
      sendEvent_def)

theorem unresolved_index_is_no_node_witness:
  "getItemFromIndex sampleModel (createIndex 0 0 (Some 30)) = None \<and>
   data sampleModel (createIndex 0 0 (Some 30)) itemName = QVariant_Invalid \<and>
   \<not> canFetchMore sampleModel (createIndex 0 0 (Some 30)) \<and>
   fetchMore sampleModel (createIndex 0 0 (Some 30)) = sampleModel \<and>
   getItemFromIndex (sampleModel\<lparr>m_rawPointers := [90 \<mapsto> 90]\<rparr>) (createIndex 0 0 (Some 90)) = None \<and>
   sendEvent (sampleModel\<lparr>m_rawPointers := [90 \<mapsto> 90]\<rparr>) (createIndex 0 0 (Some 90)) ''reload''
     = sampleModel\<lparr>m_rawPointers := [90 \<mapsto> 90]\<rparr>"
proof -
  have a: "getItemFromIndex sampleModel (createIndex 0 0 (Some 30)) = None"
    by (simp add: eval_defs)
  have b: "getItemFromIndex (sampleModel\<lparr>m_rawPointers := [90 \<mapsto> 90]\<rparr>) (createIndex 0 0 (Some 90)) = None"
    by (simp add: eval_defs)
  show ?thesis
    using a b unresolved_index_is_no_node [OF a, of itemName "''k''" QVariant_Invalid "''e''"]
      unresolved_index_is_no_node [OF b, of itemName "''k''" QVariant_Invalid "''reload''"]
    by simp
qed

text \<open>
  Which indexes do not resolve: the invalid ones, those whose pointer was never
  registered, and those whose registered weak handle points to an item that is gone.
\<close>

lemma getItemFromIndex_None_iff:
  "getItemFromIndex st ix = None \<longleftrightarrow>
     (\<not> isValid ix \<or>
      (case ix_internalPointer ix of
         None \<Rightarrow> True
       | Some a \<Rightarrow> (case m_rawPointers st a of
                      None \<Rightarrow> True
                    | Some w \<Rightarrow> heap st w = None)))"
  by (simp add: getItemFromIndex_def toStrongRef_def split: option.splits)

subsection \<open>Item flags\<close>

text \<open>
  C7, as stated, fails: for an index that resolves to no item (here the invalid root
  index) \<open>flags\<close> returns \<open>NoItemFlags\<close>, which does not include the selectable flag.
\<close>

theorem flags_unresolved_not_selectable:
  "\<not> testFlag (flags sampleModel QModelIndex_invalid) ItemIsSelectable"
  by (simp add: flags_def getItemFromIndex_def isValid_def QModelIndex_invalid_def testFlag_def
      NoItemFlags_def ItemIsSelectable_def)

text \<open>
  C7, amended. For every index that resolves to an item, \<open>flags\<close> includes the selectable
  flag, and includes the enabled flag exactly when the item's enabled flag is set. For
  every index that resolves to no item, \<open>flags\<close> is \<open>NoItemFlags\<close>.
\<close>

theorem flags_of_resolved_index:
  "(\<forall>a it. getItemFromIndex st ix = Some (a, it) \<longrightarrow>
      testFlag (flags st ix) ItemIsSelectable \<and>
      (testFlag (flags st ix) ItemIsEnabled \<longleftrightarrow> m_enabled it)) \<and>
   (getItemFromIndex st ix = None \<longrightarrow> flags st ix = NoItemFlags)"
  by (simp add: flags_def testFlag_def ItemIsSelectable_def ItemIsEnabled_def Let_def)

theorem flags_of_resolved_index_witness:
  "getItemFromIndex disabledModel (createIndex 0 0 (Some 70)) =
     Some (70, disabledItem\<lparr>m_weakPointer := Some 70\<rparr>) \<and>
   testFlag (flags disabledModel (createIndex 0 0 (Some 70))) ItemIsSelectable \<and>
   \<not> testFlag (flags disabledModel (createIndex 0 0 (Some 70))) ItemIsEnabled \<and>
   getItemFromIndex disabledModel (createIndex 0 0 (Some 90)) = None \<and>
   flags disabledModel (createIndex 0 0 (Some 90)) = NoItemFlags"
proof -
  have a: "getItemFromIndex disabledModel (createIndex 0 0 (Some 70)) =
     Some (70, disabledItem\<lparr>m_weakPointer := Some 70\<rparr>)"
    by (simp add: disabledModel_def disabledItem_def eval_defs)
  have b: "getItemFromIndex disabledModel (createIndex 0 0 (Some 90)) = None"
    by (simp add: disabledModel_def disabledItem_def eval_defs)
  show ?thesis
    using a b flags_of_resolved_index [of disabledModel "createIndex 0 0 (Some 70)"]
      flags_of_resolved_index [of disabledModel "createIndex 0 0 (Some 90)"]
    by (simp add: disabledItem_def)
qed

subsection \<open>The changed signal\<close>

text \<open>
  C8. When the item of a \<open>changed\<close> signal is alive and \<open>getIndexFromItem\<close> gives a valid
  index, \<open>onItemChanged\<close> emits one \<open>dataChanged\<close> for exactly that index if the item has
  at least one child, and nothing if it has none; the rest of the state is untouched.
  When the item gives no valid index (null, gone, or a negative row), the state is
  unchanged.
\<close>

theorem onItemChanged_emits_iff_children:
  "(\<forall>a it. lock st item = Some (a, it) \<and> isValid (getIndexFromItem st item) \<longrightarrow>
      onItemChanged st item =
        st\<lparr>emitted := emitted st @
             (if 0 < childCount it
              then [DataChanged (getIndexFromItem st item) (getIndexFromItem st item)]
              else [])\<rparr>) \<and>
   (\<not> isValid (getIndexFromItem st item) \<longrightarrow> onItemChanged st item = st)"
  by (auto simp: onItemChanged_def emit_def Let_def childCount_def split: option.splits)

theorem onItemChanged_emits_iff_children_witness:
  "emitted (onItemChanged sampleModel (Some 30)) =
     emitted sampleModel @ [DataChanged (createIndex 0 0 (Some 30)) (createIndex 0 0 (Some 30))] \<and>
   emitted (onItemChanged sampleModel (Some 50)) = emitted sampleModel \<and>
   onItemChanged sampleModel (Some 80) = sampleModel \<and>
   onItemChanged sampleModel None = sampleModel"
proof -
  have l3: "lock sampleModel (Some 30) = Some (30, mkItem ''db0'' ''database'' [40, 50] (Some 10) 0)"
    by (simp add: eval_defs)
  have l5: "lock sampleModel (Some 50) = Some (50, mkItem ''Users'' ''key'' [] (Some 30) 1)"
    by (simp add: eval_defs)
  have i3: "getIndexFromItem sampleModel (Some 30) = createIndex 0 0 (Some 30)"
    by (simp add: eval_defs)
  have i5: "getIndexFromItem sampleModel (Some 50) = createIndex 1 0 (Some 50)"
    by (simp add: eval_defs)
  have i8: "getIndexFromItem sampleModel (Some 80) = QModelIndex_invalid"
    by (simp add: eval_defs)
  have i0: "getIndexFromItem sampleModel None = QModelIndex_invalid"
    by (simp add: eval_defs)
  have v: "isValid (createIndex 0 0 (Some 30))" "isValid (createIndex 1 0 (Some 50))"
    "\<not> isValid QModelIndex_invalid"
    by (simp_all add: isValid_def createIndex_def QModelIndex_invalid_def)
  show ?thesis
    using onItemChanged_emits_iff_children [of sampleModel "Some 30"]
      onItemChanged_emits_iff_children [of sampleModel "Some 50"]
      onItemChanged_emits_iff_children [of sampleModel "Some 80"]
      onItemChanged_emits_iff_children [of sampleModel None]
      l3 l5 i3 i5 i8 i0 v
    by (simp add: mkItem_def childCount_def)
qed

subsection \<open>What the searches leave alone\<close>

declare match_rows.simps [simp del]






lemma rawPointers_insert_registered [simp]:
  "m_rawPointers (rawPointers_insert st a a) a = Some a"
  by (simp add: rawPointers_insert_def)








subsection \<open>Resolving indexes\<close>




lemma lock_rawPointers_insert [simp]: "lock (rawPointers_insert st a w) p = lock st p"
  by (cases p) (simp_all add: lock_def toStrongRef_def rawPointers_insert_def)






text \<open>
  The sample states, spelled out.
\<close>

lemma heap_sampleModel:
  "heap sampleModel =
     [10 \<mapsto> (mkItem ''srv'' ''server'' [30] None 0)\<lparr>m_weakPointer := Some 10\<rparr>,
      20 \<mapsto> (mkItem ''other'' ''server'' [] None 1)\<lparr>m_weakPointer := Some 20\<rparr>,
      30 \<mapsto> mkItem ''db0'' ''database'' [40, 50] (Some 10) 0,
      40 \<mapsto> mkItem ''users'' ''namespace'' [60] (Some 30) 0,
      50 \<mapsto> mkItem ''Users'' ''key'' [] (Some 30) 1,
      60 \<mapsto> mkItem ''users'' ''namespace'' [] (Some 40) 0]"
  by (rule ext) (simp add: eval_defs)

lemma sampleModel_fields:
  "m_treeItems sampleModel = [10, 20]" "m_rawPointers sampleModel = Map.empty"
  "m_expanded sampleModel = []" "settings sampleModel = Map.empty"
  by (simp_all add: eval_defs)

lemma browsedModel_eq:
  "browsedModel = sampleModel\<lparr>m_rawPointers := [10 \<mapsto> 10, 30 \<mapsto> 30], m_expanded := [''users'']\<rparr>"
  by (simp add: browsedModel_def eval_defs)

lemma heap_browsedModel: "heap browsedModel = heap sampleModel"
  and rawPointers_browsedModel: "m_rawPointers browsedModel = [10 \<mapsto> 10, 30 \<mapsto> 30]"
  and expanded_browsedModel: "m_expanded browsedModel = [''users'']"
  and settings_browsedModel: "settings browsedModel = Map.empty"
  by (simp_all add: browsedModel_eq sampleModel_fields)










subsection \<open>Index and parent\<close>




text \<open>
  The stored row is what \<open>parent\<close> reads. After \<open>removeRootItem\<close> the stored row of a
  later root item is no longer its position (see C1), and then even the index that
  \<open>index\<close> itself returns for it does not come back: \<open>srv\<close> is at position 0 with stored
  row 1.
\<close>

lemma parent_after_removeRootItem:
  "index removedModel 0 0 QModelIndex_invalid =
     (rawPointers_insert removedModel 10 10, createIndex 0 0 (Some 10)) \<and>
   index (rawPointers_insert removedModel 10 10) 0 0 (createIndex 0 0 (Some 10)) =
     (rawPointers_insert (rawPointers_insert removedModel 10 10) 30 30,
      createIndex 0 0 (Some 30)) \<and>
   snd (parent (rawPointers_insert (rawPointers_insert removedModel 10 10) 30 30)
         (createIndex 0 0 (Some 30))) = createIndex 1 0 (Some 10)"
  by (simp add: removedModel_def eval_defs)

subsection \<open>Searching a tree the store holds\<close>

lemma matching_Nil [simp]: "matching dec text r [] = []"
  by (simp add: matching_def)




















subsection \<open>The children-loaded signal\<close>




text \<open>
  C4, as stated, fails. With the restoration switched off, the handler for the
  database \<open>db0\<close> still requests the expansion of \<open>db0\<close> itself: \<open>expand\<close> is emitted before
  the setting is read. The tracked set is cleared.
\<close>

theorem childsLoaded_database_disabled_expands:
  "settings_value noRestoreModel ''app/reopenNamespacesOnReload'' True = False \<and>
   map_option m_type (heap noRestoreModel 30) = Some ''database'' \<and>
   onItemChildsLoaded 0 noRestoreModel (Some 30) =
     Some (noRestoreModel\<lparr>m_expanded := [],
             emitted := emitted noRestoreModel @
               [BeginInsertRows (createIndex 0 0 (Some 30)) 0 1, EndInsertRows,
                Expand (createIndex 0 0 (Some 30))]\<rparr>)"
  by (simp add: onItemChildsLoaded_def noRestoreModel_def settings_value_def eval_defs)

text \<open>
  C4, amended. For a children-loaded signal of a live database item with a valid
  index, the handler emits the insert bracket and an \<open>expand\<close> request for the database
  itself, whatever the setting. With the setting on (or absent: the default is on) it
  then runs \<open>restoreOpenedNamespaces\<close> for the database index; with the setting off it
  sends no further request and clears the tracked set.
\<close>

theorem childsLoaded_database:
  assumes alive: "lock st item = Some (a, it)"
    and valid: "isValid (getIndexFromItem st item)"
    and db: "m_type it = ''database''"
  shows
   "onItemChildsLoaded fuel st item =
      (if settings_value st ''app/reopenNamespacesOnReload'' True
       then restoreOpenedNamespaces fuel
              (st\<lparr>emitted := emitted st @
                    [BeginInsertRows (getIndexFromItem st item) 0 (childCount it - 1),
                     EndInsertRows, Expand (getIndexFromItem st item)]\<rparr>)
              (getIndexFromItem st item)
       else Some (st\<lparr>m_expanded := [],
                     emitted := emitted st @
                       [BeginInsertRows (getIndexFromItem st item) 0 (childCount it - 1),
                        EndInsertRows, Expand (getIndexFromItem st item)]\<rparr>))"
  using alive valid db
  by (simp add: onItemChildsLoaded_def emit_def Let_def settings_value_def)

theorem childsLoaded_database_witness:
  "onItemChildsLoaded 0 noRestoreModel (Some 30) =
     Some (noRestoreModel\<lparr>m_expanded := [],
             emitted := emitted noRestoreModel @
               [BeginInsertRows (createIndex 0 0 (Some 30)) 0 1, EndInsertRows,
                Expand (createIndex 0 0 (Some 30))]\<rparr>) \<and>
   onItemChildsLoaded 3 browsedModel (Some 30) =
     restoreOpenedNamespaces 3
       (browsedModel\<lparr>emitted := emitted browsedModel @
               [BeginInsertRows (createIndex 0 0 (Some 30)) 0 1, EndInsertRows,
                Expand (createIndex 0 0 (Some 30))]\<rparr>)
       (createIndex 0 0 (Some 30))"
proof -
  define db where "db = mkItem ''db0'' ''database'' [40, 50] (Some 10) 0"
  have hn: "heap noRestoreModel = heap sampleModel"
    by (simp add: noRestoreModel_def)
  have l: "lock noRestoreModel (Some 30) = Some (30, db)" "lock browsedModel (Some 30) = Some (30, db)"
    by (simp_all add: lock_def toStrongRef_def hn heap_browsedModel heap_sampleModel db_def)
  have i: "getIndexFromItem noRestoreModel (Some 30) = createIndex 0 0 (Some 30)"
    "getIndexFromItem browsedModel (Some 30) = createIndex 0 0 (Some 30)"
    unfolding getIndexFromItem_def l by (simp_all add: db_def mkItem_def)
  have v: "isValid (getIndexFromItem noRestoreModel (Some 30))"
    "isValid (getIndexFromItem browsedModel (Some 30))"
    by (simp_all add: i isValid_def createIndex_def)
  have c: "childCount db = 2" and t: "m_type db = ''database''"
    by (simp_all add: db_def mkItem_def childCount_def)
  have s: "\<not> settings_value noRestoreModel ''app/reopenNamespacesOnReload'' True"
    "settings_value browsedModel ''app/reopenNamespacesOnReload'' True"
    by (simp_all add: settings_value_def noRestoreModel_def settings_browsedModel)
  from childsLoaded_database [OF l(1) v(1) t, of 0] childsLoaded_database [OF l(2) v(2) t, of 3]
  show ?thesis
    by (simp add: i c s)
qed

subsection \<open>Restoring the expanded namespaces\<close>




end
